theory Spec2Isabelle
  imports Main
begin

section \<open>The environment of apod_desktop.py\<close>

text \<open>
  The script is a linear pipeline of functions that print, read the command line, talk to
  the network, to SQLite and to the file system, and abort with \<open>sys.exit\<close>. Every function
  of the source becomes a function from the world to a result and the new world; an
  exception or \<open>sys.exit\<close> is the \<open>Inl\<close> branch of the result.
\<close>

datatype error =
    SystemExit string
  | ValueError string
  | KeyError string
  | TypeError string
  | IndexError string
  | OSError string
  | RequestException string
  | OperationalError string
  | DatabaseError string
  | ProgrammingError string
  | IntegrityError string

text \<open>The exceptions of the sqlite3 module (the storage layer).\<close>

fun is_storage_error :: "error \<Rightarrow> bool" where
  "is_storage_error (OperationalError m) = True"
| "is_storage_error (DatabaseError m) = True"
| "is_storage_error (ProgrammingError m) = True"
| "is_storage_error (IntegrityError m) = True"
| "is_storage_error e = False"

fun is_exit :: "error \<Rightarrow> bool" where
  "is_exit (SystemExit m) = True"
| "is_exit e = False"

datatype json =
    JNull
  | JBool bool
  | JNum int
  | JStr string
  | JArr "json list"
  | JObj "(string \<times> json) list"

record request =
  req_url :: string
  req_params :: "(string \<times> string) list"
  req_stream :: bool

text \<open>
  A response of \<open>requests.get\<close>: the status code, the body (\<open>content\<close>) and what
  \<open>.json()\<close> gives on it (\<open>None\<close> when the body is not JSON and \<open>.json()\<close> raises).
\<close>

record response =
  status_code :: int
  content :: "nat list"
  json_body :: "json option"

datatype sqlval = SNull | SInt int | SText string

record table =
  t_defs :: "string list list"
  t_rows :: "(string \<times> sqlval) list list"

type_synonym database = "(string \<times> table) list"

datatype fcontent = Raw "nat list" | Sqlite database

record world =
  argv :: "string list"
  isdir :: "string \<Rightarrow> bool"
  today :: string
  now :: string
  http :: "request \<Rightarrow> error + response"
  db_openable :: "string \<Rightarrow> bool"
  fs :: "string \<Rightarrow> fcontent option"
  stdout :: "string list"
  requests :: "request list"
  wallpaper :: "string option"

type_synonym 'a res = "(error + 'a) \<times> world"

definition print :: "string \<Rightarrow> world \<Rightarrow> world" where
  "print s w = w\<lparr>stdout := stdout w @ [s]\<rparr>"

text \<open>\<open>sys.exit(msg)\<close> raises SystemExit; nothing after it in the caller runs.\<close>

definition exit_py :: "string \<Rightarrow> world \<Rightarrow> 'a res" where
  "exit_py msg w = (Inl (SystemExit msg), w)"

text \<open>\<open>requests.get\<close>: the request is recorded as issued, the environment answers.\<close>

definition get_py :: "request \<Rightarrow> world \<Rightarrow> response res" where
  "get_py r w = (http w r, w\<lparr>requests := requests w @ [r]\<rparr>)"

subsection \<open>Strings\<close>

definition digit_char :: "nat \<Rightarrow> char" where
  "digit_char n = char_of (48 + n)"

function str_nat :: "nat \<Rightarrow> string" where
  "str_nat n = (if n < 10 then [digit_char n] else str_nat (n div 10) @ [digit_char (n mod 10)])"
  by pat_completeness auto
termination
  by (relation "measure id") auto

declare str_nat.simps [simp del]

definition str_int :: "int \<Rightarrow> string" where
  "str_int i = (if i < 0 then CHR ''-'' # str_nat (nat (- i)) else str_nat (nat i))"

text \<open>\<open>s.split(c)\<close> for a one-character separator: one more piece than separators.\<close>

fun split_acc :: "char \<Rightarrow> string \<Rightarrow> string \<Rightarrow> string list" where
  "split_acc c cur [] = [rev cur]"
| "split_acc c cur (x # xs) =
     (if x = c then rev cur # split_acc c [] xs else split_acc c (x # cur) xs)"

definition split_py :: "string \<Rightarrow> char \<Rightarrow> string list" where
  "split_py s c = split_acc c [] s"

text \<open>\<open>xs[-1]\<close>: raises IndexError on the empty list.\<close>

definition index_last :: "'a list \<Rightarrow> error + 'a" where
  "index_last xs = (case xs of [] \<Rightarrow> Inl (IndexError ''list index out of range'')
                    | _ \<Rightarrow> Inr (last xs))"

text \<open>
  \<open>os.path.join(a, b)\<close> with two arguments, as posixpath implements it: an absolute \<open>b\<close>
  replaces \<open>a\<close>; otherwise the two are put together with one separator between them.
\<close>

definition path_join :: "string \<Rightarrow> string \<Rightarrow> string" where
  "path_join a b =
     (if b \<noteq> [] \<and> hd b = CHR ''/'' then b
      else if a = [] \<or> last a = CHR ''/'' then a @ b
      else a @ ''/'' @ b)"

section \<open>Parameters\<close>

definition get_image_dir_path :: "world \<Rightarrow> string res" where
  "get_image_dir_path w =
     (if length (argv w) \<ge> 2 then
        (let dir_path = argv w ! 1 in
         if isdir w dir_path then
           (Inr dir_path, print (''\<newline>Images directory: '' @ dir_path) w)
         else
           exit_py ''Script execution aborted''
             (print (''Error: Non-existent directory '' @ dir_path) w))
      else
        exit_py ''Script execution aborted'' (print ''Error: Missing path parameter.'' w))"

definition get_image_path :: "string \<Rightarrow> string \<Rightarrow> world \<Rightarrow> string res" where
  "get_image_path image_url dir_path w =
     (let w1 = print ''Determining image local path... '' w in
      case index_last (split_py image_url CHR ''/'') of
        Inl e \<Rightarrow> (Inl e, w1)
      | Inr img_name \<Rightarrow> (Inr (path_join dir_path img_name), print ''done!'' w1))"

text \<open>The spec's words for the file name: what follows the last \<open>/\<close> of the URL.\<close>

definition last_segment :: "string \<Rightarrow> string" where
  "last_segment url = rev (takeWhile (\<lambda>c. c \<noteq> CHR ''/'') (rev url))"

subsection \<open>The date parameter\<close>

text \<open>
  \<open>datetime.strptime(s, '%Y-%m-%d')\<close>. The format becomes the regular expression
  \<open>(\d\d\d\d)-(1[0-2]|0[1-9]|[1-9])-(3[0-1]|[1-2]\d|0[1-9]|[1-9]| [1-9])\<close>, matched at the
  start of the string; the alternatives are tried in this order. Text left after the match
  and a day that the month does not have raise ValueError.
\<close>

definition in_range :: "char \<Rightarrow> char \<Rightarrow> char \<Rightarrow> bool" where
  "in_range c lo hi = ((of_char lo :: nat) \<le> of_char c \<and> (of_char c :: nat) \<le> of_char hi)"

definition is_digit :: "char \<Rightarrow> bool" where
  "is_digit c = in_range c CHR ''0'' CHR ''9''"

definition digit_val :: "char \<Rightarrow> nat" where
  "digit_val c = of_char c - 48"

fun match_Y :: "string \<Rightarrow> (nat \<times> string) option" where
  "match_Y (a # b # c # d # r) =
     (if is_digit a \<and> is_digit b \<and> is_digit c \<and> is_digit d
      then Some (1000 * digit_val a + 100 * digit_val b + 10 * digit_val c + digit_val d, r)
      else None)"
| "match_Y s = None"

fun two_chars :: "(char \<Rightarrow> bool) \<Rightarrow> (char \<Rightarrow> bool) \<Rightarrow> string \<Rightarrow> (nat \<times> string) list" where
  "two_chars p q (a # b # r) =
     (if p a \<and> q b then [(10 * digit_val a + digit_val b, r)] else [])"
| "two_chars p q s = []"

fun one_char :: "(char \<Rightarrow> bool) \<Rightarrow> string \<Rightarrow> (nat \<times> string) list" where
  "one_char p (a # r) = (if p a then [(digit_val a, r)] else [])"
| "one_char p [] = []"

fun space_char :: "(char \<Rightarrow> bool) \<Rightarrow> string \<Rightarrow> (nat \<times> string) list" where
  "space_char p (a # b # r) = (if a = CHR '' '' \<and> p b then [(digit_val b, r)] else [])"
| "space_char p s = []"

definition alts_m :: "string \<Rightarrow> (nat \<times> string) list" where
  "alts_m s =
     two_chars (\<lambda>c. c = CHR ''1'') (\<lambda>c. in_range c CHR ''0'' CHR ''2'') s
     @ two_chars (\<lambda>c. c = CHR ''0'') (\<lambda>c. in_range c CHR ''1'' CHR ''9'') s
     @ one_char (\<lambda>c. in_range c CHR ''1'' CHR ''9'') s"

definition alts_d :: "string \<Rightarrow> (nat \<times> string) list" where
  "alts_d s =
     two_chars (\<lambda>c. c = CHR ''3'') (\<lambda>c. in_range c CHR ''0'' CHR ''1'') s
     @ two_chars (\<lambda>c. in_range c CHR ''1'' CHR ''2'') is_digit s
     @ two_chars (\<lambda>c. c = CHR ''0'') (\<lambda>c. in_range c CHR ''1'' CHR ''9'') s
     @ one_char (\<lambda>c. in_range c CHR ''1'' CHR ''9'') s
     @ space_char (\<lambda>c. in_range c CHR ''1'' CHR ''9'') s"

fun first_some :: "('a \<Rightarrow> 'b option) \<Rightarrow> 'a list \<Rightarrow> 'b option" where
  "first_some f [] = None"
| "first_some f (x # xs) = (case f x of Some v \<Rightarrow> Some v | None \<Rightarrow> first_some f xs)"

definition expect_dash :: "string \<Rightarrow> string option" where
  "expect_dash s = (case s of [] \<Rightarrow> None | c # r \<Rightarrow> if c = CHR ''-'' then Some r else None)"

definition regex_match :: "string \<Rightarrow> (nat \<times> nat \<times> nat \<times> string) option" where
  "regex_match s =
     (case match_Y s of
        None \<Rightarrow> None
      | Some (y, r1) \<Rightarrow>
          (case expect_dash r1 of
             None \<Rightarrow> None
           | Some r2 \<Rightarrow>
               first_some (\<lambda>(m, r3).
                  case expect_dash r3 of
                    None \<Rightarrow> None
                  | Some r4 \<Rightarrow>
                      (case alts_d r4 of
                         [] \<Rightarrow> None
                       | (d, r5) # _ \<Rightarrow> Some (y, m, d, r5)))
                 (alts_m r2)))"

definition is_leap :: "nat \<Rightarrow> bool" where
  "is_leap y = (y mod 4 = 0 \<and> (y mod 100 \<noteq> 0 \<or> y mod 400 = 0))"

definition days_in_month :: "nat \<Rightarrow> nat \<Rightarrow> nat" where
  "days_in_month y m =
     (if m = 2 then (if is_leap y then 29 else 28)
      else if m = 4 \<or> m = 6 \<or> m = 9 \<or> m = 11 then 30 else 31)"

definition valid_date :: "nat \<Rightarrow> nat \<Rightarrow> nat \<Rightarrow> bool" where
  "valid_date y m d =
     (1 \<le> y \<and> y \<le> 9999 \<and> 1 \<le> m \<and> m \<le> 12 \<and> 1 \<le> d \<and> d \<le> days_in_month y m)"

definition strptime_ymd :: "string \<Rightarrow> error + (nat \<times> nat \<times> nat)" where
  "strptime_ymd s =
     (case regex_match s of
        None \<Rightarrow> Inl (ValueError ''time data does not match format'')
      | Some (y, m, d, rest) \<Rightarrow>
          if rest \<noteq> [] then Inl (ValueError ''unconverted data remains'')
          else if valid_date y m d then Inr (y, m, d)
          else Inl (ValueError ''day is out of range for month''))"

definition get_apod_date :: "world \<Rightarrow> string res" where
  "get_apod_date w =
     (if length (argv w) \<ge> 3 then
        (let apod_date = argv w ! 2 in
         case strptime_ymd apod_date of
           Inl (ValueError m) \<Rightarrow>
             exit_py ''Script execution aborted''
               (print ''Error: Incorrect date format; Should be YYYY-MM-DD'' w)
         | Inl e \<Rightarrow> (Inl e, w)
         | Inr d \<Rightarrow> (Inr apod_date, print (''APOD date: '' @ apod_date) w))
      else
        (let apod_date = today w in
         (Inr apod_date, print (''APOD date: '' @ apod_date) w)))"

text \<open>The strict form of a date: four digits, a dash, two digits, a dash, two digits.\<close>

definition zero_padded_form :: "string \<Rightarrow> bool" where
  "zero_padded_form s =
     (length s = 10 \<and> (\<forall>i \<in> {0, 1, 2, 3, 5, 6, 8, 9}. is_digit (s ! i))
      \<and> s ! 4 = CHR ''-'' \<and> s ! 7 = CHR ''-'')"

section \<open>The remote API\<close>

definition APOD_URL :: string where
  "APOD_URL = ''https://api.nasa.gov/planetary/apod''"

definition APOD_KEY :: string where
  "APOD_KEY = ''lMDGG0bANZOe9caY59RJmVoaviTTzzdTDRihVaw5''"

definition apod_request :: "string \<Rightarrow> request" where
  "apod_request date =
     \<lparr>req_url = APOD_URL, req_params = [(''api_key'', APOD_KEY), (''date'', date)],
      req_stream = False\<rparr>"

definition get_apod_info :: "string \<Rightarrow> world \<Rightarrow> json res" where
  "get_apod_info date w =
     (case get_py (apod_request date) w of
        (Inl e, w1) \<Rightarrow> (Inl e, w1)
      | (Inr api_response, w1) \<Rightarrow>
          if status_code api_response = 200 then
            (let w2 = print ''Request to APOD successful!'' w1 in
             case json_body api_response of
               None \<Rightarrow> (Inl (ValueError ''JSONDecodeError''), w2)
             | Some j \<Rightarrow> (Inr j, w2))
          else if status_code api_response = 404 then
            exit_py ''Script execution aborted''
              (print (''Unable to establish connection: '' @ str_int (status_code api_response)
                      @ ''\<newline>Make sure to input an existing past date.'') w1)
          else
            exit_py ''Script execution aborted''
              (print (''Unable to establish connection: '' @ str_int (status_code api_response))
                 w1))"

text \<open>
  \<open>d['url']\<close> on what \<open>.json()\<close> returned: KeyError when the object has no such key,
  TypeError when it is not an object. Of a repeated key the JSON decoder keeps the last.
\<close>

definition subscript :: "json \<Rightarrow> string \<Rightarrow> error + json" where
  "subscript j k =
     (case j of
        JObj kvs \<Rightarrow>
          (case map_of (rev kvs) k of None \<Rightarrow> Inl (KeyError k) | Some v \<Rightarrow> Inr v)
      | _ \<Rightarrow> Inl (TypeError ''indices must be integers''))"

text \<open>
  The URL handed to \<open>requests.get\<close> and to \<open>str.split\<close> must be a string; for anything
  else requests raises before a request is sent.
\<close>

definition as_url :: "json \<Rightarrow> error + string" where
  "as_url j = (case j of JStr u \<Rightarrow> Inr u | _ \<Rightarrow> Inl (RequestException ''Invalid URL''))"

definition download_apod_image :: "string \<Rightarrow> world \<Rightarrow> response res" where
  "download_apod_image image_url w =
     (case get_py \<lparr>req_url = image_url, req_params = [], req_stream = True\<rparr> w of
        (Inl e, w1) \<Rightarrow> (Inl e, w1)
      | (Inr response, w1) \<Rightarrow>
          if status_code response = 200 then
            (Inr response, print (''Image sucessfully downloaded from '' @ image_url) w1)
          else
            exit_py ''Script execution aborted''
              (print ''Error: Unable to retrieve image from URL.'' w1))"

definition print_apod_info :: "string \<Rightarrow> string \<Rightarrow> int \<Rightarrow> string \<Rightarrow> world \<Rightarrow> world" where
  "print_apod_info image_url image_path image_size image_sha256 w =
     print ''--------------------------------------------\<newline>''
       (print (''SHA-256 digest: '' @ image_sha256)
         (print (''Size: '' @ str_int image_size @ '' bytes'')
           (print (''Local path: '' @ image_path)
             (print (''URL: '' @ image_url)
               (print ''\<newline>---------- APOD Image Information ----------'' w)))))"

text \<open>
  \<open>open(path, 'wb')\<close> raises on a directory; otherwise the file holds the response body
  afterwards, whatever it held before.
\<close>

definition save_image_file :: "response \<Rightarrow> string \<Rightarrow> world \<Rightarrow> unit res" where
  "save_image_file image_msg image_path w =
     (let w1 = print ''Saving image to local folder... '' w in
      if isdir w1 image_path then (Inl (OSError ''Is a directory''), w1)
      else (Inr (), print ''done!'' (w1\<lparr>fs := (fs w1)(image_path \<mapsto> Raw (content image_msg))\<rparr>)))"

definition set_desktop_background_image :: "string \<Rightarrow> world \<Rightarrow> unit res" where
  "set_desktop_background_image image_path w =
     (Inr (), print ''done!''
        ((print ''Setting new desktop background... '' w)\<lparr>wallpaper := Some image_path\<rparr>))"

section \<open>The catalog\<close>

subsection \<open>SQLite, as far as the three statements of the script go\<close>

text \<open>
  The statement text is cut into tokens and parsed; a text that is none of the three
  statement forms is a syntax error (sqlite3.OperationalError). Keywords and names are
  case-insensitive, parameter names are not.
\<close>

datatype token =
    TWord string | TParam string
  | LPAR | RPAR | COMMA | SEMI | QMARK | EQUALS | TOther char

datatype mode = Idle | InWord string | InParam string

definition is_word_char :: "char \<Rightarrow> bool" where
  "is_word_char c =
     (in_range c CHR ''a'' CHR ''z'' \<or> in_range c CHR ''A'' CHR ''Z''
      \<or> in_range c CHR ''0'' CHR ''9'' \<or> c = CHR ''_'')"

definition is_space :: "char \<Rightarrow> bool" where
  "is_space c = (c = CHR '' '' \<or> c = CHR ''\<newline>'' \<or> c = CHR 0x09 \<or> c = CHR 0x0D)"

definition lower :: "char \<Rightarrow> char" where
  "lower c = (if in_range c CHR ''A'' CHR ''Z'' then char_of (of_char c + (32::nat)) else c)"

fun push :: "mode \<Rightarrow> char \<Rightarrow> mode" where
  "push Idle c = InWord [c]"
| "push (InWord w) c = InWord (c # w)"
| "push (InParam w) c = InParam (c # w)"

fun flush :: "mode \<Rightarrow> token list" where
  "flush Idle = []"
| "flush (InWord w) = [TWord (map lower (rev w))]"
| "flush (InParam w) = [TParam (rev w)]"

definition punct :: "char \<Rightarrow> token" where
  "punct c =
     (if c = CHR ''('' then LPAR else if c = CHR '')'' then RPAR
      else if c = CHR '','' then COMMA else if c = CHR '';'' then SEMI
      else if c = CHR ''?'' then QMARK else if c = CHR ''='' then EQUALS
      else TOther c)"

fun lex_sql :: "mode \<Rightarrow> string \<Rightarrow> token list" where
  "lex_sql m [] = flush m"
| "lex_sql m (c # cs) =
     (if is_word_char c then lex_sql (push m c) cs
      else flush m @
        (if c = CHR '':'' then lex_sql (InParam []) cs
         else if is_space c then lex_sql Idle cs
         else punct c # lex_sql Idle cs))"

datatype stmt =
    CreateTable string "string list list"
  | Insert string "string list" nat
  | SelectCount string string string string

datatype params = NoParams | Positional "sqlval list" | Named "(string \<times> sqlval) list"

definition syntax_error :: error where
  "syntax_error = OperationalError ''syntax error''"

fun word_list :: "token list \<Rightarrow> (string list \<times> token list) option" where
  "word_list (TWord w # COMMA # r) =
     (case word_list r of None \<Rightarrow> None | Some (ws, r') \<Rightarrow> Some (w # ws, r'))"
| "word_list (TWord w # RPAR # r) = Some ([w], r)"
| "word_list ts = None"

fun qmark_list :: "token list \<Rightarrow> (nat \<times> token list) option" where
  "qmark_list (QMARK # COMMA # r) =
     (case qmark_list r of None \<Rightarrow> None | Some (n, r') \<Rightarrow> Some (Suc n, r'))"
| "qmark_list (QMARK # RPAR # r) = Some (1, r)"
| "qmark_list ts = None"

fun coldefs :: "string list \<Rightarrow> token list \<Rightarrow> (string list list \<times> token list) option" where
  "coldefs cur (TWord w # r) = coldefs (w # cur) r"
| "coldefs cur (COMMA # r) =
     (if cur = [] then None
      else case coldefs [] r of None \<Rightarrow> None | Some (ds, r') \<Rightarrow> Some (rev cur # ds, r'))"
| "coldefs cur (RPAR # r) = (if cur = [] then None else Some ([rev cur], r))"
| "coldefs cur ts = None"

definition end_ok :: "token list \<Rightarrow> bool" where
  "end_ok r = (r = [] \<or> r = [SEMI])"

definition parse_create :: "token list \<Rightarrow> error + stmt" where
  "parse_create ts =
     (case ts of
        TWord t # LPAR # r \<Rightarrow>
          (case coldefs [] r of
             Some (ds, r') \<Rightarrow> if end_ok r' then Inr (CreateTable t ds) else Inl syntax_error
           | None \<Rightarrow> Inl syntax_error)
      | _ \<Rightarrow> Inl syntax_error)"

definition parse_insert :: "token list \<Rightarrow> error + stmt" where
  "parse_insert ts =
     (case ts of
        TWord t # LPAR # r \<Rightarrow>
          (case word_list r of
             Some (cols, TWord v # LPAR # r') \<Rightarrow>
               if v = ''values'' then
                 (case qmark_list r' of
                    Some (n, r'') \<Rightarrow>
                      if end_ok r'' then Inr (Insert t cols n) else Inl syntax_error
                  | None \<Rightarrow> Inl syntax_error)
               else Inl syntax_error
           | _ \<Rightarrow> Inl syntax_error)
      | _ \<Rightarrow> Inl syntax_error)"

definition parse_select :: "token list \<Rightarrow> error + stmt" where
  "parse_select ts =
     (case ts of
        TWord c # RPAR # TWord f # TWord t # TWord wh # TWord wc # EQUALS # TParam p # r \<Rightarrow>
          if f = ''from'' \<and> wh = ''where'' \<and> end_ok r then Inr (SelectCount c t wc p)
          else Inl syntax_error
      | _ \<Rightarrow> Inl syntax_error)"

definition starts_with :: "token list \<Rightarrow> token list \<Rightarrow> bool" where
  "starts_with p ts = (take (length p) ts = p)"

definition parse_sql :: "token list \<Rightarrow> error + stmt" where
  "parse_sql ts =
     (if starts_with [TWord ''create'', TWord ''table'', TWord ''if'', TWord ''not'',
                      TWord ''exists''] ts
      then parse_create (drop 5 ts)
      else if starts_with [TWord ''insert'', TWord ''into''] ts then parse_insert (drop 2 ts)
      else if starts_with [TWord ''select'', TWord ''count'', LPAR] ts
      then parse_select (drop 3 ts)
      else Inl syntax_error)"

definition col_name :: "string list \<Rightarrow> string" where
  "col_name d = (case d of [] \<Rightarrow> [] | n # _ \<Rightarrow> n)"

definition is_rowid :: "string list \<Rightarrow> bool" where
  "is_rowid d = (''integer'' \<in> set d \<and> ''primary'' \<in> set d)"

definition not_null :: "string list \<Rightarrow> bool" where
  "not_null d = (''null'' \<in> set d)"

definition row_id :: "(string \<times> sqlval) list \<Rightarrow> string \<Rightarrow> int" where
  "row_id r c = (case map_of r c of Some (SInt i) \<Rightarrow> i | _ \<Rightarrow> 0)"

definition next_rowid :: "table \<Rightarrow> string \<Rightarrow> int" where
  "next_rowid t c = 1 + fold (\<lambda>r m. max (row_id r c) m) (t_rows t) 0"

definition new_row :: "table \<Rightarrow> (string \<times> sqlval) list \<Rightarrow> (string \<times> sqlval) list" where
  "new_row t bound =
     map (\<lambda>d. (col_name d,
                case map_of bound (col_name d) of
                  Some v \<Rightarrow> v
                | None \<Rightarrow> if is_rowid d then SInt (next_rowid t (col_name d)) else SNull))
       (t_defs t)"

definition violates :: "table \<Rightarrow> (string \<times> sqlval) list \<Rightarrow> bool" where
  "violates t r = (\<exists>d \<in> set (t_defs t). not_null d \<and> map_of r (col_name d) = Some SNull)"

definition add_row :: "string \<Rightarrow> (string \<times> sqlval) list \<Rightarrow> database \<Rightarrow> database" where
  "add_row name r db =
     map (\<lambda>(n, t). if n = name then (n, t\<lparr>t_rows := t_rows t @ [r]\<rparr>) else (n, t)) db"

definition count_rows :: "table \<Rightarrow> string \<Rightarrow> string \<Rightarrow> sqlval \<Rightarrow> int" where
  "count_rows t c wc v =
     int (length (filter (\<lambda>r. v \<noteq> SNull \<and> map_of r wc = Some v
                              \<and> map_of r c \<noteq> None \<and> map_of r c \<noteq> Some SNull) (t_rows t)))"

fun run_stmt :: "stmt \<Rightarrow> params \<Rightarrow> database \<Rightarrow> error + (sqlval list list \<times> database)" where
  "run_stmt (CreateTable name ds) ps db =
     (case map_of db name of
        Some t \<Rightarrow> Inr ([], db)
      | None \<Rightarrow>
          if distinct (map col_name ds)
          then Inr ([], db @ [(name, \<lparr>t_defs = ds, t_rows = []\<rparr>)])
          else Inl (OperationalError ''duplicate column name''))"
| "run_stmt (Insert name cols n) ps db =
     (case map_of db name of
        None \<Rightarrow> Inl (OperationalError ''no such table'')
      | Some t \<Rightarrow>
          if \<not> set cols \<subseteq> set (map col_name (t_defs t))
          then Inl (OperationalError ''table has no such column'')
          else if length cols \<noteq> n
          then Inl (OperationalError ''values for columns'')
          else
            (case ps of
               Positional vs \<Rightarrow>
                 if length vs \<noteq> n
                 then Inl (ProgrammingError ''Incorrect number of bindings supplied'')
                 else
                   (let r = new_row t (zip cols vs) in
                    if violates t r then Inl (IntegrityError ''NOT NULL constraint failed'')
                    else Inr ([], add_row name r db))
             | _ \<Rightarrow> Inl (ProgrammingError ''Incorrect number of bindings supplied'')))"
| "run_stmt (SelectCount c name wc p) ps db =
     (case map_of db name of
        None \<Rightarrow> Inl (OperationalError ''no such table'')
      | Some t \<Rightarrow>
          if c \<notin> set (map col_name (t_defs t)) \<or> wc \<notin> set (map col_name (t_defs t))
          then Inl (OperationalError ''no such column'')
          else
            (case ps of
               Named kvs \<Rightarrow>
                 (case map_of kvs p of
                    None \<Rightarrow> Inl (ProgrammingError ''You did not supply a value for binding'')
                  | Some v \<Rightarrow> Inr ([[SInt (count_rows t c wc v)]], db))
             | _ \<Rightarrow> Inl (ProgrammingError ''Incorrect number of bindings supplied'')))"

text \<open>
  \<open>connect(path)\<close> opens the file and creates it, empty, when it is not there. An empty
  file is an empty database; any other file that is not a database makes the first
  statement fail.
\<close>

definition connect :: "string \<Rightarrow> world \<Rightarrow> string res" where
  "connect db_path w =
     (if \<not> db_openable w db_path then (Inl (OperationalError ''unable to open database file''), w)
      else case fs w db_path of
             None \<Rightarrow> (Inr db_path, w\<lparr>fs := (fs w)(db_path \<mapsto> Raw [])\<rparr>)
           | Some f \<Rightarrow> (Inr db_path, w))"

definition load_db :: "world \<Rightarrow> string \<Rightarrow> error + database" where
  "load_db w conn =
     (case fs w conn of
        None \<Rightarrow> Inr []
      | Some (Raw bs) \<Rightarrow> if bs = [] then Inr [] else Inl (DatabaseError ''file is not a database'')
      | Some (Sqlite db) \<Rightarrow> Inr db)"

definition execute :: "string \<Rightarrow> string \<Rightarrow> params \<Rightarrow> world
                       \<Rightarrow> error + (sqlval list list \<times> database)" where
  "execute conn query ps w =
     (case parse_sql (lex_sql Idle query) of
        Inl e \<Rightarrow> Inl e
      | Inr st \<Rightarrow> (case load_db w conn of Inl e \<Rightarrow> Inl e | Inr db \<Rightarrow> run_stmt st ps db))"

definition commit :: "string \<Rightarrow> database \<Rightarrow> world \<Rightarrow> world" where
  "commit conn db w = w\<lparr>fs := (fs w)(conn \<mapsto> Sqlite db)\<rparr>"

subsection \<open>The catalog operations of the script\<close>

definition create_query :: string where
  "create_query =
     ''CREATE TABLE IF NOT EXISTS images (\<newline>''
     @ ''        id integer PRIMARY KEY NOT NULL,\<newline>''
     @ ''        full_path text NOT NULL,\<newline>''
     @ ''        file_size int NOT NULL,\<newline>''
     @ ''        hash_value text NOT NULL,\<newline>''
     @ ''        date_downloaded datetime NOT NULL\<newline>''
     @ ''        );''"

definition insert_query :: string where
  "insert_query =
     ''INSERT INTO images (\<newline>''
     @ ''        full_path,\<newline>''
     @ ''        file_size,\<newline>''
     @ ''        hash_value,\<newline>''
     @ ''        date_downloaded)\<newline>''
     @ ''        VALUES (?, ?, ?, ?)\<newline>''
     @ ''        );''"

definition select_query :: string where
  "select_query =
     ''SELECT COUNT(id) from images\<newline>''
     @ ''               WHERE hash_value = :hash;''"

definition create_image_db :: "string \<Rightarrow> world \<Rightarrow> unit res" where
  "create_image_db db_path w =
     (case connect db_path (print ''Validating existance of database... '' w) of
        (Inl e, w1) \<Rightarrow> (Inl e, w1)
      | (Inr conn, w1) \<Rightarrow>
          (case execute conn create_query NoParams w1 of
             Inl e \<Rightarrow> (Inl e, w1)
           | Inr (rows, db) \<Rightarrow> (Inr (), print ''done!'' (commit conn db w1))))"

definition add_image_to_db :: "string \<Rightarrow> string \<Rightarrow> int \<Rightarrow> string \<Rightarrow> world \<Rightarrow> unit res" where
  "add_image_to_db db_path image_path image_size image_sha256 w =
     (case connect db_path (print ''Saving data to database... '' w) of
        (Inl e, w1) \<Rightarrow> (Inl e, w1)
      | (Inr conn, w1) \<Rightarrow>
          (let placeholder =
                 Positional [SText image_path, SInt image_size, SText image_sha256,
                             SText (now w1)] in
           case execute conn insert_query placeholder w1 of
             Inl e \<Rightarrow> (Inl e, w1)
           | Inr (rows, db) \<Rightarrow> (Inr (), print ''done!'' (commit conn db w1))))"

definition image_already_in_db :: "string \<Rightarrow> string \<Rightarrow> world \<Rightarrow> bool res" where
  "image_already_in_db db_path image_sha256 w =
     (case connect db_path
             (print ''Validating existance of APOD image entry in database... '' w) of
        (Inl e, w1) \<Rightarrow> (Inl e, w1)
      | (Inr conn, w1) \<Rightarrow>
          (case execute conn select_query (Named [(''hash'', SText image_sha256)]) w1 of
             Inl e \<Rightarrow> (Inl e, w1)
           | Inr (query_result, db) \<Rightarrow>
               (case query_result of
                  (v # vs) # rs \<Rightarrow>
                    if v = SInt 0 then (Inr False, print ''image not in database!'' w1)
                    else (Inr True, print ''image already in database!'' w1)
                | _ \<Rightarrow> (Inl (IndexError ''list index out of range''), w1))))"

text \<open>The rows of the images table of the database file at a path, when there is one.\<close>

definition images_rows :: "world \<Rightarrow> string \<Rightarrow> (string \<times> sqlval) list list option" where
  "images_rows w db_path =
     (case fs w db_path of
        Some (Sqlite db) \<Rightarrow> map_option t_rows (map_of db ''images'')
      | _ \<Rightarrow> None)"

definition has_hash :: "world \<Rightarrow> string \<Rightarrow> string \<Rightarrow> bool" where
  "has_hash w db_path h =
     (case images_rows w db_path of
        None \<Rightarrow> False
      | Some rs \<Rightarrow> (\<exists>r \<in> set rs. map_of r ''hash_value'' = Some (SText h)))"

section \<open>The pipeline\<close>

text \<open>
  \<open>hashlib.sha256(bytes).hexdigest()\<close> is a parameter of the pipeline: the script only
  passes the response body to it and uses the string it returns.
\<close>

definition bind :: "'a res \<Rightarrow> ('a \<Rightarrow> world \<Rightarrow> 'b res) \<Rightarrow> 'b res" where
  "bind m f = (case m of (Inl e, w) \<Rightarrow> (Inl e, w) | (Inr x, w) \<Rightarrow> f x w)"

definition lift :: "error + 'a \<Rightarrow> world \<Rightarrow> 'a res" where
  "lift r w = (r, w)"

definition main :: "(nat list \<Rightarrow> string) \<Rightarrow> world \<Rightarrow> unit res" where
  "main sha256_hexdigest w0 =
     bind (get_image_dir_path w0) (\<lambda>image_dir_path w.
       let db_path = path_join image_dir_path ''apod_images.db'' in
       bind (get_apod_date w) (\<lambda>apod_date w.
       bind (create_image_db db_path w) (\<lambda>u w.
       bind (get_apod_info apod_date w) (\<lambda>apod_info_dict w.
       bind (lift (subscript apod_info_dict ''url'') w) (\<lambda>url_value w.
       bind (lift (as_url url_value) w) (\<lambda>image_url w.
       bind (download_apod_image image_url w) (\<lambda>image_msg w.
         let image_sha256 = sha256_hexdigest (content image_msg);
             image_size = int (length (content image_msg)) in
       bind (get_image_path image_url image_dir_path w) (\<lambda>image_path w.
       bind (image_already_in_db db_path image_sha256
               (print_apod_info image_url image_path image_size image_sha256 w))
         (\<lambda>present w.
       bind (if \<not> present then save_image_file image_msg image_path w else (Inr (), w))
         (\<lambda>u w.
       set_desktop_background_image image_path w))))))))))"

section \<open>Catalog states and sample runs\<close>

text \<open>The column definitions that \<open>create_query\<close> gives the images table.\<close>

definition image_defs :: "string list list" where
  "image_defs =
     [[''id'', ''integer'', ''primary'', ''key'', ''not'', ''null''],
      [''full_path'', ''text'', ''not'', ''null''],
      [''file_size'', ''int'', ''not'', ''null''],
      [''hash_value'', ''text'', ''not'', ''null''],
      [''date_downloaded'', ''datetime'', ''not'', ''null'']]"

definition has_id :: "(string \<times> sqlval) list \<Rightarrow> bool" where
  "has_id r = (case map_of r ''id'' of Some (SInt i) \<Rightarrow> True | _ \<Rightarrow> False)"

text \<open>
  A catalog as the script leaves it: a database file whose images table has the columns of
  \<open>create_query\<close> and whose rows all carry an integer id (the primary key).
\<close>

definition catalog_wf :: "world \<Rightarrow> string \<Rightarrow> bool" where
  "catalog_wf w db_path =
     (case fs w db_path of
        Some (Sqlite db) \<Rightarrow>
          (case map_of db ''images'' of
             Some t \<Rightarrow> t_defs t = image_defs \<and> list_all has_id (t_rows t)
           | None \<Rightarrow> False)
      | _ \<Rightarrow> False)"

definition empty_images :: table where
  "empty_images = \<lparr>t_defs = image_defs, t_rows = []\<rparr>"

definition example_url :: string where
  "example_url = ''https://example/img.jpg''"

definition abc :: "nat list" where
  "abc = [97, 98, 99]"

definition scenario_http :: "request \<Rightarrow> error + response" where
  "scenario_http r =
     (if req_url r = APOD_URL then
        Inr \<lparr>status_code = 200, content = [],
             json_body = Some (JObj [(''url'', JStr example_url)])\<rparr>
      else if req_url r = example_url then
        Inr \<lparr>status_code = 200, content = abc, json_body = None\<rparr>
      else Inl (RequestException ''unreachable''))"

definition http_404 :: "request \<Rightarrow> error + response" where
  "http_404 r = Inr \<lparr>status_code = 404, content = [], json_body = None\<rparr>"

definition is_imgs :: "string \<Rightarrow> bool" where
  "is_imgs p = (p = ''/imgs'')"

definition any_path :: "string \<Rightarrow> bool" where
  "any_path p = True"

definition scenario_world :: world where
  "scenario_world =
     \<lparr>argv = [''apod_desktop.py'', ''/imgs''], isdir = is_imgs, today = ''2022-04-17'',
      now = ''2022-04-17 12:00:00'', http = scenario_http, db_openable = any_path,
      fs = Map.empty, stdout = [], requests = [], wallpaper = None\<rparr>"

definition world_404 :: world where
  "world_404 = scenario_world\<lparr>http := http_404\<rparr>"

definition catalog_path :: string where
  "catalog_path = ''/imgs/apod_images.db''"

definition catalog_world :: world where
  "catalog_world = scenario_world\<lparr>fs := [catalog_path \<mapsto> Sqlite [(''images'', empty_images)]]\<rparr>"

text \<open>A stand-in for the digest function in closed sample runs.\<close>

definition stub_sha256 :: "nat list \<Rightarrow> string" where
  "stub_sha256 bs = str_nat (length bs)"

definition bad_date_world :: world where
  "bad_date_world = scenario_world\<lparr>argv := [''apod_desktop.py'', ''/imgs'', ''2022/13/40'']\<rparr>"

definition unpadded_date_world :: world where
  "unpadded_date_world = scenario_world\<lparr>argv := [''apod_desktop.py'', ''/imgs'', ''2022-1-5'']\<rparr>"

text \<open>A catalog that already holds a row whose digest is that of the sample image.\<close>

definition hit_world :: world where
  "hit_world =
     scenario_world\<lparr>fs :=
       [catalog_path \<mapsto>
          Sqlite [(''images'',
                   \<lparr>t_defs = image_defs,
                    t_rows = [[(''id'', SInt 1), (''full_path'', SText ''/old/img.jpg''),
                               (''file_size'', SInt 3), (''hash_value'', SText ''3''),
                               (''date_downloaded'', SText ''2022-04-16 09:00:00'')]]\<rparr>)]]\<rparr>"

section \<open>Theorems\<close>

lemma takeWhile_neq_all: "c \<notin> set xs \<Longrightarrow> takeWhile (\<lambda>x. x \<noteq> c) xs = xs"
  by (induction xs) auto

lemma split_acc_nonempty: "split_acc c cur s \<noteq> []"
  by (induction s arbitrary: cur) auto

lemma split_acc_last:
  "c \<notin> set cur \<Longrightarrow>
   last (split_acc c cur s) = rev (takeWhile (\<lambda>x. x \<noteq> c) (rev s @ cur))"
proof (induction s arbitrary: cur)
  case Nil
  then show ?case by (simp add: takeWhile_neq_all)
next
  case (Cons x xs)
  show ?case
  proof (cases "x = c")
    case True
    have "last (split_acc c [] xs) = rev (takeWhile (\<lambda>x. x \<noteq> c) (rev xs))"
      using Cons.IH [of "[]"] by simp
    then show ?thesis
      using True by (simp add: split_acc_nonempty takeWhile_tail)
  next
    case False
    then show ?thesis
      using Cons.IH [of "x # cur"] Cons.prems by simp
  qed
qed

lemma last_split_py: "last (split_py url c) = rev (takeWhile (\<lambda>x. x \<noteq> c) (rev url))"
  using split_acc_last [of c "[]" url] by (simp add: split_py_def)

lemma index_last_nonempty: "xs \<noteq> [] \<Longrightarrow> index_last xs = Inr (last xs)"
  by (cases xs) (simp_all add: index_last_def)

lemma index_last_split_py:
  "index_last (split_py url CHR ''/'') = Inr (last_segment url)"
proof -
  have "split_py url CHR ''/'' \<noteq> []"
    by (simp add: split_py_def split_acc_nonempty)
  then have "index_last (split_py url CHR ''/'') = Inr (last (split_py url CHR ''/''))"
    by (rule index_last_nonempty)
  then show ?thesis
    by (simp add: last_split_py last_segment_def)
qed

lemma last_segment_after_slash:
  "CHR ''/'' \<notin> set s \<Longrightarrow> last_segment (p @ ''/'' @ s) = s"
  by (simp add: last_segment_def takeWhile_tail takeWhile_neq_all)

lemma last_segment_no_slash:
  "CHR ''/'' \<notin> set url \<Longrightarrow> last_segment url = url"
  by (simp add: last_segment_def takeWhile_neq_all)

text \<open>
  C8. For every image URL and target directory, the path computed by \<open>get_image_path\<close> is
  the directory joined (\<open>os.path.join\<close>) with the part of the URL after its last \<open>/\<close>.
\<close>

theorem get_image_path_last_segment:
  "fst (get_image_path image_url dir_path w) = Inr (path_join dir_path (last_segment image_url))"
  by (simp add: get_image_path_def index_last_split_py)

subsection \<open>The three statements\<close>

lemma parse_create_query:
  "parse_sql (lex_sql Idle create_query) = Inr (CreateTable ''images'' image_defs)"
  by code_simp

lemma parse_insert_query: "parse_sql (lex_sql Idle insert_query) = Inl syntax_error"
  by code_simp

lemma parse_select_query:
  "parse_sql (lex_sql Idle select_query)
     = Inr (SelectCount ''id'' ''images'' ''hash_value'' ''hash'')"
  by code_simp

lemma execute_insert: "execute conn insert_query ps w = Inl syntax_error"
  by (simp add: execute_def parse_insert_query)

lemma execute_create:
  "execute conn create_query ps w =
     (case load_db w conn of
        Inl e \<Rightarrow> Inl e
      | Inr db \<Rightarrow> run_stmt (CreateTable ''images'' image_defs) ps db)"
  by (simp add: execute_def parse_create_query)

lemma execute_select:
  "execute conn select_query ps w =
     (case load_db w conn of
        Inl e \<Rightarrow> Inl e
      | Inr db \<Rightarrow> run_stmt (SelectCount ''id'' ''images'' ''hash_value'' ''hash'') ps db)"
  by (simp add: execute_def parse_select_query)

lemma distinct_image_defs: "distinct (map col_name image_defs)"
  by (simp add: image_defs_def col_name_def)

lemma connect_cases:
  "connect p w = (Inl (OperationalError ''unable to open database file''), w)
   \<or> (connect p w = (Inr p, w) \<and> fs w p \<noteq> None)
   \<or> (connect p w = (Inr p, w\<lparr>fs := (fs w)(p \<mapsto> Raw [])\<rparr>) \<and> fs w p = None)"
  by (auto simp: connect_def split: option.splits)

lemma images_rows_fresh: "images_rows (w\<lparr>fs := (fs w)(p \<mapsto> Raw [])\<rparr>) p = None"
  by (simp add: images_rows_def)

lemma images_rows_stdout [simp]: "images_rows (w\<lparr>stdout := s\<rparr>) p = images_rows w p"
  by (simp add: images_rows_def)

lemma images_rows_print [simp]: "images_rows (print s w) p = images_rows w p"
  by (simp add: print_def)

text \<open>
  C4. For every input, \<open>add_image_to_db\<close> raises a storage-layer error and leaves the
  images table as it was: the INSERT text has a closing parenthesis too many, so it never
  parses, and no file other than the (possibly just created, empty) database file changes.
\<close>

theorem add_image_to_db_never_inserts:
  "\<exists>e. fst (add_image_to_db db_path image_path image_size image_sha256 w) = Inl e
       \<and> is_storage_error e
       \<and> images_rows (snd (add_image_to_db db_path image_path image_size image_sha256 w)) db_path
           = images_rows w db_path
       \<and> (\<forall>p. p \<noteq> db_path \<longrightarrow>
             fs (snd (add_image_to_db db_path image_path image_size image_sha256 w)) p = fs w p)"
proof -
  let ?w0 = "print ''Saving data to database... '' w"
  have fs0: "fs ?w0 = fs w" by (simp add: print_def)
  consider
    (closed) "connect db_path ?w0 = (Inl (OperationalError ''unable to open database file''), ?w0)"
  | (there) "connect db_path ?w0 = (Inr db_path, ?w0)" "fs ?w0 db_path \<noteq> None"
  | (fresh) "connect db_path ?w0 = (Inr db_path, ?w0\<lparr>fs := (fs ?w0)(db_path \<mapsto> Raw [])\<rparr>)"
            "fs ?w0 db_path = None"
    using connect_cases [of db_path ?w0] by (elim disjE conjE) blast+
  then show ?thesis
  proof cases
    case closed
    then show ?thesis
      by (simp add: add_image_to_db_def fs0)
  next
    case there
    then show ?thesis
      by (simp add: add_image_to_db_def execute_insert syntax_error_def fs0)
  next
    case fresh
    have "images_rows w db_path = None"
      using fresh(2) by (simp add: images_rows_def fs0)
    then show ?thesis
      using fresh
      by (simp add: add_image_to_db_def execute_insert syntax_error_def fs0 images_rows_def)
  qed
qed

theorem add_image_to_db_never_inserts_witness:
  "\<exists>e. fst (add_image_to_db catalog_path ''/imgs/img.jpg'' 3 ''abc'' catalog_world) = Inl e
       \<and> is_storage_error e
       \<and> images_rows (snd (add_image_to_db catalog_path ''/imgs/img.jpg'' 3 ''abc'' catalog_world))
            catalog_path = Some []"
proof -
  have "images_rows catalog_world catalog_path = Some []"
    by (simp add: images_rows_def catalog_world_def scenario_world_def empty_images_def)
  then show ?thesis
    using add_image_to_db_never_inserts [of catalog_path "''/imgs/img.jpg''" 3 "''abc''" catalog_world]
    by auto
qed

subsection \<open>Creating the catalog\<close>

lemma create_image_db_fs:
  "fs (snd (create_image_db p w)) =
     (if \<not> db_openable w p then fs w
      else case fs w p of
             None \<Rightarrow> (fs w)(p \<mapsto> Sqlite [(''images'', empty_images)])
           | Some (Raw bs) \<Rightarrow>
               if bs = [] then (fs w)(p \<mapsto> Sqlite [(''images'', empty_images)]) else fs w
           | Some (Sqlite db) \<Rightarrow>
               (case map_of db ''images'' of
                  Some t \<Rightarrow> fs w
                | None \<Rightarrow> (fs w)(p \<mapsto> Sqlite (db @ [(''images'', empty_images)]))))"
  by (auto simp: create_image_db_def connect_def execute_create load_db_def commit_def print_def
        distinct_image_defs empty_images_def fun_upd_idem
      split: option.splits fcontent.splits)

lemma create_image_db_openable:
  "db_openable (snd (create_image_db p w)) = db_openable w"
  by (auto simp: create_image_db_def connect_def execute_create load_db_def commit_def print_def
        distinct_image_defs
      split: option.splits fcontent.splits)

lemma create_image_db_result:
  "fst (create_image_db p w) =
     (if \<not> db_openable w p then Inl (OperationalError ''unable to open database file'')
      else case fs w p of
             Some (Raw bs) \<Rightarrow>
               if bs = [] then Inr () else Inl (DatabaseError ''file is not a database'')
           | _ \<Rightarrow> Inr ())"
  by (auto simp: create_image_db_def connect_def execute_create load_db_def commit_def print_def
        distinct_image_defs
      split: option.splits fcontent.splits)

text \<open>
  C9. \<open>create_image_db\<close> is idempotent: where the images table exists already, the files
  (the database and its rows among them) stay as they are, and a second run after a first
  one changes nothing.
\<close>

theorem create_image_db_idempotent:
  "(images_rows w db_path \<noteq> None \<longrightarrow> fs (snd (create_image_db db_path w)) = fs w)
   \<and> fs (snd (create_image_db db_path (snd (create_image_db db_path w))))
       = fs (snd (create_image_db db_path w))"
proof
  show "images_rows w db_path \<noteq> None \<longrightarrow> fs (snd (create_image_db db_path w)) = fs w"
    by (auto simp: create_image_db_fs images_rows_def split: option.splits fcontent.splits)
next
  let ?w1 = "snd (create_image_db db_path w)"
  have o: "db_openable ?w1 = db_openable w" by (rule create_image_db_openable)
  show "fs (snd (create_image_db db_path ?w1)) = fs ?w1"
    unfolding create_image_db_fs [of db_path ?w1] o
    by (auto simp: create_image_db_fs split: option.splits fcontent.splits)
qed

theorem create_image_db_idempotent_witness:
  "images_rows catalog_world catalog_path \<noteq> None
   \<and> fs (snd (create_image_db catalog_path catalog_world)) = fs catalog_world
   \<and> fs (snd (create_image_db catalog_path (snd (create_image_db catalog_path scenario_world))))
       = fs (snd (create_image_db catalog_path scenario_world))"
proof -
  have "images_rows catalog_world catalog_path \<noteq> None"
    by (simp add: images_rows_def catalog_world_def scenario_world_def)
  then show ?thesis
    using create_image_db_idempotent [of catalog_world catalog_path]
      create_image_db_idempotent [of scenario_world catalog_path]
    by simp
qed

subsection \<open>Evaluating runs\<close>

lemma str_int_3: "str_int 3 = ''3''"
  by code_simp

lemma str_int_404: "str_int 404 = ''404''"
  by code_simp

lemma split_example:
  "split_py ''https://example/img.jpg'' CHR ''/'' = [''https:'', [], ''example'', ''img.jpg'']"
  by code_simp

lemma strptime_slashes:
  "strptime_ymd ''2022/13/40'' = Inl (ValueError ''time data does not match format'')"
  by code_simp

lemma strptime_unpadded: "strptime_ymd ''2022-1-5'' = Inr (2022, 1, 5)"
  by code_simp

lemmas run_defs = Let_def main_def bind_def lift_def get_image_dir_path_def get_apod_date_def
  create_image_db_def get_apod_info_def subscript_def as_url_def download_apod_image_def
  get_image_path_def print_apod_info_def image_already_in_db_def save_image_file_def
  set_desktop_background_image_def add_image_to_db_def connect_def load_db_def commit_def
  print_def exit_py_def get_py_def execute_create execute_select execute_insert
  apod_request_def path_join_def index_last_def count_rows_def image_defs_def col_name_def
  images_rows_def syntax_error_def

lemmas world_defs = scenario_world_def world_404_def catalog_world_def scenario_http_def
  http_404_def is_imgs_def any_path_def catalog_path_def empty_images_def abc_def
  APOD_URL_def example_url_def bad_date_world_def unpadded_date_world_def hit_world_def

text \<open>
  C1. Scenario A on the code: the directory exists, no date is given, the metadata answer
  is 200 with the URL \<open>https://example/img.jpg\<close> and the image answer is 200 with the
  bytes of \<open>abc\<close>. The path is \<open>/imgs/img.jpg\<close>, the digest is that of \<open>abc\<close>, the size is
  3 and the file is written, but the images table has no row after the run, whether the
  catalog existed before the run or not: \<open>main\<close> never calls \<open>add_image_to_db\<close>.
\<close>

theorem scenario_A_adds_no_row:
  "fst (main H scenario_world) = Inr ()
   \<and> fs (snd (main H scenario_world)) ''/imgs/img.jpg'' = Some (Raw abc)
   \<and> wallpaper (snd (main H scenario_world)) = Some ''/imgs/img.jpg''
   \<and> ''Local path: /imgs/img.jpg'' \<in> set (stdout (snd (main H scenario_world)))
   \<and> ''Size: 3 bytes'' \<in> set (stdout (snd (main H scenario_world)))
   \<and> (''SHA-256 digest: '' @ H abc) \<in> set (stdout (snd (main H scenario_world)))
   \<and> images_rows (snd (main H scenario_world)) catalog_path = Some []
   \<and> images_rows catalog_world catalog_path = Some []
   \<and> images_rows (snd (main H catalog_world)) catalog_path = Some []"
  by (simp add: run_defs world_defs split_example str_int_3)

text \<open>
  C3. On a catalog with an empty images table the existence check answers False for the
  digest \<open>abc\<close>; \<open>add_image_to_db\<close> then raises a syntax error instead of inserting the
  row, and the existence check still answers False afterwards.
\<close>

theorem read_after_insert_fails:
  "fst (image_already_in_db catalog_path ''abc'' catalog_world) = Inr False
   \<and> fst (add_image_to_db catalog_path ''/imgs/img.jpg'' 3 ''abc'' catalog_world)
       = Inl (OperationalError ''syntax error'')
   \<and> fst (image_already_in_db catalog_path ''abc''
            (snd (add_image_to_db catalog_path ''/imgs/img.jpg'' 3 ''abc'' catalog_world)))
       = Inr False"
  by (simp add: run_defs world_defs)

subsection \<open>The metadata fetcher\<close>

text \<open>
  C6. For every metadata request that gets a response: with status 200 the fetcher returns
  what \<open>.json()\<close> gives on the body; with status 404 it prints its message for the user and
  exits; with any other status than 200 it exits. It returns a value only for a 200.
\<close>

theorem get_apod_info_by_status:
  "(\<forall>r. http w (apod_request date) = Inr r \<longrightarrow>
       (status_code r = 200 \<longrightarrow>
          fst (get_apod_info date w)
            = (case json_body r of Some j \<Rightarrow> Inr j | None \<Rightarrow> Inl (ValueError ''JSONDecodeError'')))
     \<and> (status_code r = 404 \<longrightarrow>
          fst (get_apod_info date w) = Inl (SystemExit ''Script execution aborted'')
          \<and> last (stdout (snd (get_apod_info date w)))
              = ''Unable to establish connection: 404\<newline>Make sure to input an existing past date.'')
     \<and> (status_code r \<noteq> 200 \<longrightarrow>
          fst (get_apod_info date w) = Inl (SystemExit ''Script execution aborted'')))
   \<and> (\<forall>j. fst (get_apod_info date w) = Inr j \<longrightarrow>
          (\<exists>r. http w (apod_request date) = Inr r \<and> status_code r = 200
               \<and> json_body r = Some j))"
  by (auto simp: get_apod_info_def get_py_def exit_py_def print_def Let_def str_int_404
      split: sum.splits option.splits)

theorem get_apod_info_by_status_witness:
  "http world_404 (apod_request ''2022-04-17'')
     = Inr \<lparr>status_code = 404, content = [], json_body = None\<rparr>
   \<and> fst (get_apod_info ''2022-04-17'' world_404) = Inl (SystemExit ''Script execution aborted'')
   \<and> http scenario_world (apod_request ''2022-04-17'')
     = Inr \<lparr>status_code = 200, content = [],
            json_body = Some (JObj [(''url'', JStr example_url)])\<rparr>
   \<and> fst (get_apod_info ''2022-04-17'' scenario_world) = Inr (JObj [(''url'', JStr example_url)])"
proof -
  let ?r = "\<lparr>status_code = 404, content = [], json_body = None\<rparr>"
  let ?s = "\<lparr>status_code = 200, content = [],
             json_body = Some (JObj [(''url'', JStr example_url)])\<rparr>"
  have a: "http world_404 (apod_request ''2022-04-17'') = Inr ?r"
    by (simp add: world_404_def scenario_world_def http_404_def)
  have b: "http scenario_world (apod_request ''2022-04-17'') = Inr ?s"
    by (simp add: scenario_world_def scenario_http_def apod_request_def)
  note ta = get_apod_info_by_status [of world_404 "''2022-04-17''",
      THEN conjunct1, THEN spec, of ?r, THEN mp, OF a]
  note tb = get_apod_info_by_status [of scenario_world "''2022-04-17''",
      THEN conjunct1, THEN spec, of ?s, THEN mp, OF b]
  have ne: "status_code ?r \<noteq> 200" by simp
  have c: "fst (get_apod_info ''2022-04-17'' world_404)
             = Inl (SystemExit ''Script execution aborted'')"
    by (rule ta [THEN conjunct2, THEN conjunct2, THEN mp, OF ne])
  have ok: "status_code ?s = 200" by simp
  have "fst (get_apod_info ''2022-04-17'' scenario_world)
          = (case json_body ?s of Some j \<Rightarrow> Inr j
             | None \<Rightarrow> Inl (ValueError ''JSONDecodeError''))"
    by (rule tb [THEN conjunct1, THEN mp, OF ok])
  then have d: "fst (get_apod_info ''2022-04-17'' scenario_world)
                  = Inr (JObj [(''url'', JStr example_url)])"
    by simp
  show ?thesis
    by (rule conjI [OF a conjI [OF c conjI [OF b d]]])
qed

subsection \<open>The date parameter\<close>

lemma strptime_only_ValueError: "strptime_ymd s = Inl e \<Longrightarrow> \<exists>m. e = ValueError m"
  by (auto simp: strptime_ymd_def split: option.splits if_splits prod.splits)

text \<open>
  C7. For every date argument that \<open>strptime\<close> rejects, \<open>get_apod_date\<close> exits, and so does
  the program, without a request having been issued and without a file having changed; when
  the directory is valid, the last thing printed is the message of the date check.
\<close>

theorem malformed_date_no_request:
  assumes "3 \<le> length (argv w)" and "isl (strptime_ymd (argv w ! 2))"
  shows "fst (get_apod_date w) = Inl (SystemExit ''Script execution aborted'')
         \<and> requests (snd (get_apod_date w)) = requests w
         \<and> fst (main H w) = Inl (SystemExit ''Script execution aborted'')
         \<and> requests (snd (main H w)) = requests w
         \<and> fs (snd (main H w)) = fs w
         \<and> (isdir w (argv w ! 1) \<longrightarrow>
               last (stdout (snd (main H w)))
                 = ''Error: Incorrect date format; Should be YYYY-MM-DD'')"
proof -
  obtain m where m: "strptime_ymd (argv w ! 2) = Inl (ValueError m)"
    using assms(2) strptime_only_ValueError by (cases "strptime_ymd (argv w ! 2)") auto
  show ?thesis
    using assms(1) m
    by (simp add: main_def bind_def get_image_dir_path_def get_apod_date_def exit_py_def
          print_def Let_def)
qed

theorem malformed_date_no_request_witness:
  "3 \<le> length (argv bad_date_world)
   \<and> isl (strptime_ymd (argv bad_date_world ! 2))
   \<and> fst (main stub_sha256 bad_date_world) = Inl (SystemExit ''Script execution aborted'')
   \<and> requests (snd (main stub_sha256 bad_date_world)) = []
   \<and> last (stdout (snd (main stub_sha256 bad_date_world)))
       = ''Error: Incorrect date format; Should be YYYY-MM-DD''"
proof -
  have a: "3 \<le> length (argv bad_date_world)"
    by (simp add: bad_date_world_def scenario_world_def)
  have b: "isl (strptime_ymd (argv bad_date_world ! 2))"
    by (simp add: bad_date_world_def scenario_world_def strptime_slashes)
  have c: "isdir bad_date_world (argv bad_date_world ! 1)"
    by (simp add: bad_date_world_def scenario_world_def is_imgs_def)
  have d: "requests bad_date_world = []"
    by (simp add: bad_date_world_def scenario_world_def)
  show ?thesis
    using a b c d malformed_date_no_request [OF a b, of stub_sha256]
    by simp
qed

text \<open>
  C10. The date check accepts arguments that are not in the zero-padded form, such as
  \<open>2022-1-5\<close>, and \<open>get_apod_date\<close> returns every accepted argument as it was given;
  that string is the \<open>date\<close> parameter of the metadata request.
\<close>

theorem unpadded_date_accepted_verbatim:
  "strptime_ymd ''2022-1-5'' = Inr (2022, 1, 5)
   \<and> \<not> zero_padded_form ''2022-1-5''
   \<and> (3 \<le> length (argv w) \<longrightarrow> \<not> isl (strptime_ymd (argv w ! 2)) \<longrightarrow>
         fst (get_apod_date w) = Inr (argv w ! 2))
   \<and> requests (snd (get_apod_info date w)) = requests w @ [apod_request date]
   \<and> map_of (req_params (apod_request date)) ''date'' = Some date
   \<and> hd (requests (snd (main H unpadded_date_world))) = apod_request ''2022-1-5''"
proof -
  have a: "\<not> zero_padded_form ''2022-1-5''"
    by (simp add: zero_padded_form_def)
  have b: "3 \<le> length (argv w) \<longrightarrow> \<not> isl (strptime_ymd (argv w ! 2)) \<longrightarrow>
             fst (get_apod_date w) = Inr (argv w ! 2)"
    by (cases "strptime_ymd (argv w ! 2)") (simp_all add: get_apod_date_def Let_def)
  have c: "requests (snd (get_apod_info date w)) = requests w @ [apod_request date]"
    by (simp add: get_apod_info_def get_py_def exit_py_def print_def Let_def
        split: sum.splits option.splits)
  have d: "map_of (req_params (apod_request date)) ''date'' = Some date"
    by (simp add: apod_request_def)
  have e: "hd (requests (snd (main H unpadded_date_world))) = apod_request ''2022-1-5''"
    by (simp add: run_defs world_defs split_example str_int_3 strptime_unpadded)
  show ?thesis
    using strptime_unpadded a b c d e by blast
qed

theorem unpadded_date_accepted_verbatim_witness:
  "3 \<le> length (argv unpadded_date_world)
   \<and> \<not> isl (strptime_ymd (argv unpadded_date_world ! 2))
   \<and> fst (get_apod_date unpadded_date_world) = Inr ''2022-1-5''"
proof -
  have a: "3 \<le> length (argv unpadded_date_world)"
    by (simp add: unpadded_date_world_def scenario_world_def)
  have b: "\<not> isl (strptime_ymd (argv unpadded_date_world ! 2))"
    by (simp add: unpadded_date_world_def scenario_world_def strptime_unpadded)
  have c: "argv unpadded_date_world ! 2 = ''2022-1-5''"
    by (simp add: unpadded_date_world_def scenario_world_def)
  note t = unpadded_date_accepted_verbatim [of unpadded_date_world,
      THEN conjunct2, THEN conjunct2, THEN conjunct1, THEN mp, OF a, THEN mp, OF b]
  show ?thesis
    using a b t c by simp
qed

subsection \<open>The catalog lookup and the pipeline\<close>

lemma count_rows_zero_iff:
  "list_all has_id (t_rows t) \<Longrightarrow>
   (count_rows t ''id'' ''hash_value'' (SText h) = 0)
     = (\<not> (\<exists>r \<in> set (t_rows t). map_of r ''hash_value'' = Some (SText h)))"
proof -
  assume a: "list_all has_id (t_rows t)"
  have "\<And>r. r \<in> set (t_rows t) \<Longrightarrow> map_of r ''id'' \<noteq> None \<and> map_of r ''id'' \<noteq> Some SNull"
    using a by (auto simp: list_all_iff has_id_def split: option.splits sqlval.splits)
  then show ?thesis
    by (auto simp: count_rows_def filter_empty_conv)
qed

lemma image_already_in_db_wf:
  assumes "db_openable w p" and "catalog_wf w p"
  shows "fst (image_already_in_db p h w) = Inr (has_hash w p h)
         \<and> fs (snd (image_already_in_db p h w)) = fs w"
proof -
  obtain db t where f: "fs w p = Some (Sqlite db)" and m: "map_of db ''images'' = Some t"
    and d: "t_defs t = image_defs" and ids: "list_all has_id (t_rows t)"
    using assms(2) by (auto simp: catalog_wf_def split: option.splits fcontent.splits)
  have cols: "''id'' \<in> set (map col_name image_defs)" "''hash_value'' \<in> set (map col_name image_defs)"
    by (simp_all add: image_defs_def col_name_def)
  have hh: "has_hash w p h = (\<exists>r \<in> set (t_rows t). map_of r ''hash_value'' = Some (SText h))"
    using f m by (simp add: has_hash_def images_rows_def)
  show ?thesis
    using assms(1) f m d cols count_rows_zero_iff [OF ids, of h] hh
    by (simp add: image_already_in_db_def connect_def print_def execute_select load_db_def)
qed

lemmas step_defs = Let_def main_def bind_def lift_def get_image_dir_path_def get_apod_date_def
  create_image_db_def get_apod_info_def as_url_def download_apod_image_def
  get_image_path_def print_apod_info_def image_already_in_db_def save_image_file_def
  set_desktop_background_image_def connect_def load_db_def commit_def
  print_def exit_py_def get_py_def execute_create execute_select index_last_split_py

text \<open>
  C2. For every run that reaches the catalog lookup (valid directory and date, catalog in
  the form the script creates, metadata and image answers 200) and whose image digest is
  already in a row of the catalog: the run ends normally, no file is written or changed
  (so no row is added either), and the background is set to the directory joined with the
  last segment of the URL.
\<close>

theorem cache_hit_writes_nothing:
  assumes a1: "2 \<le> length (argv w)" and a2: "isdir w (argv w ! 1)"
    and a3: "length (argv w) < 3 \<or> \<not> isl (strptime_ymd (argv w ! 2))"
    and date: "date = (if 3 \<le> length (argv w) then argv w ! 2 else today w)"
    and db: "db = path_join (argv w ! 1) ''apod_images.db''"
    and a4: "db_openable w db" and a5: "catalog_wf w db"
    and a6: "http w (apod_request date) = Inr meta" "status_code meta = 200"
            "json_body meta = Some j" "subscript j ''url'' = Inr (JStr u)"
    and a7: "http w \<lparr>req_url = u, req_params = [], req_stream = True\<rparr> = Inr img"
            "status_code img = 200"
    and a8: "has_hash w db (H (content img))"
  shows "fst (main H w) = Inr ()
         \<and> fs (snd (main H w)) = fs w
         \<and> images_rows (snd (main H w)) db = images_rows w db
         \<and> wallpaper (snd (main H w)) = Some (path_join (argv w ! 1) (last_segment u))"
proof -
  obtain dbv t where f: "fs w db = Some (Sqlite dbv)" and m: "map_of dbv ''images'' = Some t"
    and d: "t_defs t = image_defs" and ids: "list_all has_id (t_rows t)"
    using a5 by (auto simp: catalog_wf_def split: option.splits fcontent.splits)
  have idem: "(fs w)(db \<mapsto> Sqlite dbv) = fs w"
    using f by (simp add: fun_upd_idem)
  have cols: "''id'' \<in> set (map col_name (t_defs t))"
             "''hash_value'' \<in> set (map col_name (t_defs t))"
    by (simp_all add: d image_defs_def col_name_def)
  have hit: "count_rows t ''id'' ''hash_value'' (SText (H (content img))) \<noteq> 0"
    using a8 f m count_rows_zero_iff [OF ids, of "H (content img)"]
    by (simp add: has_hash_def images_rows_def)
  have core: "fst (main H w) = Inr ()
         \<and> fs (snd (main H w)) = fs w
         \<and> wallpaper (snd (main H w)) = Some (path_join (argv w ! 1) (last_segment u))"
  proof (cases "3 \<le> length (argv w)")
    case True
    then obtain dv where dv: "strptime_ymd (argv w ! 2) = Inr dv"
      using a3 by (cases "strptime_ymd (argv w ! 2)") auto
    show ?thesis
      using True dv a1 a2 a4 a6 a7 f m cols hit idem date db [symmetric]
      by (simp add: step_defs)
  next
    case False
    show ?thesis
      using False a1 a2 a4 a6 a7 f m cols hit idem date db [symmetric]
      by (simp add: step_defs)
  qed
  then show ?thesis
    by (simp add: images_rows_def)
qed

text \<open>
  C5 as stated fails: with no catalog in the directory and a 404 for the metadata, the
  catalog file exists after the run, holding an empty images table.
\<close>

theorem metadata_404_creates_catalog:
  "http world_404 (apod_request ''2022-04-17'')
     = Inr \<lparr>status_code = 404, content = [], json_body = None\<rparr>
   \<and> fst (main stub_sha256 world_404) = Inl (SystemExit ''Script execution aborted'')
   \<and> fs world_404 catalog_path = None
   \<and> fs (snd (main stub_sha256 world_404)) catalog_path
       = Some (Sqlite [(''images'', empty_images)])
   \<and> fs (snd (main stub_sha256 world_404)) catalog_path \<noteq> fs world_404 catalog_path"
  by (simp add: run_defs world_defs str_int_404)

text \<open>
  C5 as the code has it. For every run that reaches the metadata fetch and gets a 404: the
  program exits; no file other than the catalog changes, so no image file is written; the
  catalog has the rows it had, or was created with an empty images table by
  \<open>create_image_db\<close>, which runs before the fetch; the background is not set and the
  metadata request is the only request issued.
\<close>

theorem metadata_404_keeps_rows:
  assumes a1: "2 \<le> length (argv w)" and a2: "isdir w (argv w ! 1)"
    and a3: "length (argv w) < 3 \<or> \<not> isl (strptime_ymd (argv w ! 2))"
    and date: "date = (if 3 \<le> length (argv w) then argv w ! 2 else today w)"
    and db: "db = path_join (argv w ! 1) ''apod_images.db''"
    and a4: "fst (create_image_db db w) = Inr ()"
    and a6: "http w (apod_request date) = Inr r" "status_code r = 404"
  shows "fst (main H w) = Inl (SystemExit ''Script execution aborted'')
         \<and> fs (snd (main H w)) = fs (snd (create_image_db db w))
         \<and> (\<forall>p. p \<noteq> db \<longrightarrow> fs (snd (main H w)) p = fs w p)
         \<and> (images_rows (snd (main H w)) db = images_rows w db
              \<or> (images_rows w db = None \<and> images_rows (snd (main H w)) db = Some []))
         \<and> wallpaper (snd (main H w)) = wallpaper w
         \<and> requests (snd (main H w)) = requests w @ [apod_request date]"
proof -
  have o: "db_openable w db"
    using a4 by (simp add: create_image_db_result split: if_splits)
  have nr: "\<And>bs. fs w db = Some (Raw bs) \<Longrightarrow> bs = []"
    using a4 o by (simp add: create_image_db_result split: if_splits)
  have dv: "3 \<le> length (argv w) \<Longrightarrow> \<exists>dv. strptime_ymd (argv w ! 2) = Inr dv"
    using a3 by (cases "strptime_ymd (argv w ! 2)") auto
  have run: "main H w = (Inl (SystemExit ''Script execution aborted''),
               snd (main H w))
             \<and> fs (snd (main H w)) = fs (snd (create_image_db db w))
             \<and> wallpaper (snd (main H w)) = wallpaper w
             \<and> requests (snd (main H w)) = requests w @ [apod_request date]"
  proof (cases "3 \<le> length (argv w)")
    case True
    then obtain d where d: "strptime_ymd (argv w ! 2) = Inr d" using dv by blast
    show ?thesis
      using True d a1 a2 o nr a6 date db [symmetric]
      by (auto simp: step_defs distinct_image_defs split: option.splits fcontent.splits)
  next
    case False
    show ?thesis
      using False a1 a2 o nr a6 date db [symmetric]
      by (auto simp: step_defs distinct_image_defs split: option.splits fcontent.splits)
  qed
  have frame: "\<forall>p. p \<noteq> db \<longrightarrow> fs (snd (create_image_db db w)) p = fs w p"
    by (auto simp: create_image_db_fs split: option.splits fcontent.splits)
  have rows: "images_rows (snd (create_image_db db w)) db = images_rows w db
              \<or> (images_rows w db = None \<and> images_rows (snd (create_image_db db w)) db = Some [])"
    using o nr
    by (auto simp: images_rows_def create_image_db_fs empty_images_def map_add_def
        split: option.splits fcontent.splits)
  have same: "images_rows (snd (main H w)) db = images_rows (snd (create_image_db db w)) db"
    using run by (simp add: images_rows_def)
  show ?thesis
    using run frame rows same by (metis fst_conv)
qed

subsection \<open>Sample runs of the pipeline\<close>

lemma stub_abc: "stub_sha256 abc = ''3''"
  by code_simp

lemma last_segment_example: "last_segment example_url = ''img.jpg''"
  by code_simp

theorem cache_hit_writes_nothing_witness:
  "2 \<le> length (argv hit_world)
   \<and> isdir hit_world (argv hit_world ! 1)
   \<and> db_openable hit_world catalog_path
   \<and> catalog_wf hit_world catalog_path
   \<and> has_hash hit_world catalog_path (stub_sha256 abc)
   \<and> fst (main stub_sha256 hit_world) = Inr ()
   \<and> fs (snd (main stub_sha256 hit_world)) = fs hit_world
   \<and> wallpaper (snd (main stub_sha256 hit_world)) = Some ''/imgs/img.jpg''"
proof -
  let ?meta = "\<lparr>status_code = 200, content = [],
                json_body = Some (JObj [(''url'', JStr example_url)])\<rparr>"
  let ?img = "\<lparr>status_code = 200, content = abc, json_body = None\<rparr>"
  have h1: "2 \<le> length (argv hit_world)"
    by (simp add: hit_world_def scenario_world_def)
  have h2: "isdir hit_world (argv hit_world ! 1)"
    by (simp add: hit_world_def scenario_world_def is_imgs_def)
  have h3: "length (argv hit_world) < 3 \<or> \<not> isl (strptime_ymd (argv hit_world ! 2))"
    by (simp add: hit_world_def scenario_world_def)
  have hd: "''2022-04-17'' = (if 3 \<le> length (argv hit_world) then argv hit_world ! 2
                              else today hit_world)"
    by (simp add: hit_world_def scenario_world_def)
  have hp: "catalog_path = path_join (argv hit_world ! 1) ''apod_images.db''"
    by (simp add: hit_world_def scenario_world_def catalog_path_def path_join_def)
  have h4: "db_openable hit_world catalog_path"
    by (simp add: hit_world_def scenario_world_def any_path_def)
  have h5: "catalog_wf hit_world catalog_path"
    by (simp add: catalog_wf_def hit_world_def scenario_world_def has_id_def)
  have h6: "http hit_world (apod_request ''2022-04-17'') = Inr ?meta"
    by (simp add: hit_world_def scenario_world_def scenario_http_def apod_request_def)
  have h6b: "status_code ?meta = 200" by simp
  have h6c: "json_body ?meta = Some (JObj [(''url'', JStr example_url)])" by simp
  have h6d: "subscript (JObj [(''url'', JStr example_url)]) ''url'' = Inr (JStr example_url)"
    by (simp add: subscript_def)
  have h7: "http hit_world \<lparr>req_url = example_url, req_params = [], req_stream = True\<rparr>
              = Inr ?img"
    by (simp add: hit_world_def scenario_world_def scenario_http_def APOD_URL_def
        example_url_def)
  have h7b: "status_code ?img = 200" by simp
  have h8: "has_hash hit_world catalog_path (stub_sha256 abc)"
    by (simp add: has_hash_def images_rows_def hit_world_def scenario_world_def stub_abc)
  have h8': "has_hash hit_world catalog_path (stub_sha256 (content ?img))"
    using h8 by simp
  note t = cache_hit_writes_nothing [where H = stub_sha256, OF h1 h2 h3 hd hp h4 h5 h6 h6b h6c h6d h7 h7b h8']
  have p: "path_join (argv hit_world ! 1) (last_segment example_url) = ''/imgs/img.jpg''"
    by (simp add: last_segment_example hit_world_def scenario_world_def path_join_def)
  have c1: "fst (main stub_sha256 hit_world) = Inr ()"
    by (rule t [THEN conjunct1])
  have c2: "fs (snd (main stub_sha256 hit_world)) = fs hit_world"
    by (rule t [THEN conjunct2, THEN conjunct1])
  have c3: "wallpaper (snd (main stub_sha256 hit_world)) = Some ''/imgs/img.jpg''"
    using t [THEN conjunct2, THEN conjunct2, THEN conjunct2] p by simp
  show ?thesis
    by (intro conjI h1 h2 h4 h5 h8 c1 c2 c3)
qed

theorem metadata_404_keeps_rows_witness:
  "2 \<le> length (argv world_404)
   \<and> isdir world_404 (argv world_404 ! 1)
   \<and> fst (create_image_db catalog_path world_404) = Inr ()
   \<and> http world_404 (apod_request ''2022-04-17'')
       = Inr \<lparr>status_code = 404, content = [], json_body = None\<rparr>
   \<and> fst (main stub_sha256 world_404) = Inl (SystemExit ''Script execution aborted'')
   \<and> requests (snd (main stub_sha256 world_404)) = [apod_request ''2022-04-17'']
   \<and> wallpaper (snd (main stub_sha256 world_404)) = None"
proof -
  let ?r = "\<lparr>status_code = 404, content = [], json_body = None\<rparr>"
  have h1: "2 \<le> length (argv world_404)"
    by (simp add: world_404_def scenario_world_def)
  have h2: "isdir world_404 (argv world_404 ! 1)"
    by (simp add: world_404_def scenario_world_def is_imgs_def)
  have h3: "length (argv world_404) < 3 \<or> \<not> isl (strptime_ymd (argv world_404 ! 2))"
    by (simp add: world_404_def scenario_world_def)
  have hd: "''2022-04-17'' = (if 3 \<le> length (argv world_404) then argv world_404 ! 2
                              else today world_404)"
    by (simp add: world_404_def scenario_world_def)
  have hp: "catalog_path = path_join (argv world_404 ! 1) ''apod_images.db''"
    by (simp add: world_404_def scenario_world_def catalog_path_def path_join_def)
  have h4: "fst (create_image_db catalog_path world_404) = Inr ()"
    by (simp add: create_image_db_result world_404_def scenario_world_def any_path_def)
  have h6: "http world_404 (apod_request ''2022-04-17'') = Inr ?r"
    by (simp add: world_404_def scenario_world_def http_404_def)
  have h6b: "status_code ?r = 404" by simp
  note t = metadata_404_keeps_rows [OF h1 h2 h3 hd hp h4 h6 h6b, of stub_sha256]
  have c1: "fst (main stub_sha256 world_404) = Inl (SystemExit ''Script execution aborted'')"
    by (rule t [THEN conjunct1])
  have c2: "requests (snd (main stub_sha256 world_404)) = [apod_request ''2022-04-17'']"
    using t [THEN conjunct2, THEN conjunct2, THEN conjunct2, THEN conjunct2, THEN conjunct2]
    by (simp add: world_404_def scenario_world_def)
  have c3: "wallpaper (snd (main stub_sha256 world_404)) = None"
    using t [THEN conjunct2, THEN conjunct2, THEN conjunct2, THEN conjunct2, THEN conjunct1]
    by (simp add: world_404_def scenario_world_def)
  show ?thesis
    by (intro conjI h1 h2 h4 h6 c1 c2 c3)
qed

end
